theory Spec2Isabelle
  imports Complex_Main "HOL-Library.AList"
begin

section \<open>Data model\<close>

text \<open>
  \<^verbatim>\<open>PingResult.status\<close> is \<^verbatim>\<open>'success' | 'error' | 'timeout'\<close>; the status a panel
  publishes is \<^verbatim>\<open>'online' | 'offline' | 'error'\<close>; \<^verbatim>\<open>getOverallStatus\<close> returns one
  of the latter or \<^verbatim>\<open>'unknown'\<close>.
\<close>

datatype ping_status = Success | PingError | Timeout

datatype panel_status = Online | Offline | Error

datatype overall_status = Known panel_status | Unknown

text \<open>
  \<^verbatim>\<open>interface PingResult { timestamp; status; responseTime?; error? }\<close>. The timestamp is
  the clock reading (milliseconds) taken when the result object is built.
\<close>

record PingResult =
  timestamp :: nat
  status :: ping_status
  responseTime :: "int option"
  error :: "string option"

text \<open>\<^verbatim>\<open>useState({ sent: 0, received: 0, lost: 0, avgTime: 0 })\<close>\<close>

record Stats =
  sent :: int
  received :: int
  lost :: int
  avgTime :: int

text \<open>
  The state of one mounted \<^verbatim>\<open>PingPanel\<close> component (PingPanel.tsx, lines 45-54), without the
  purely visual fields. \<open>closure_results\<close> is not a React state of its own: it is the value of
  \<^verbatim>\<open>results\<close> that the interval callback installed by the \<^verbatim>\<open>useEffect\<close> of line 114 closed
  over. \<^verbatim>\<open>results\<close> is not among that effect's dependencies (line 158), so the callback keeps
  the list of the render in which the effect last ran.
\<close>

record PingPanel =
  target :: string
  isRunning :: bool
  results :: "PingResult list"
  currentStatus :: panel_status
  stats :: Stats
  closure_results :: "PingResult list"

text \<open>\<^verbatim>\<open>interface Panel { id; target; title }\<close>: the entry the page keeps for a panel.\<close>

record Panel =
  panel_id :: string
  panel_target :: string
  panel_title :: string

record Toast =
  toast_title :: string
  toast_description :: string
  toast_variant :: string

text \<open>
  The state of the \<^verbatim>\<open>Index\<close> page. The page of part_000 (lines 17-22) has the first three
  fields; the page in the second document of AddPanelButton.tsx (lines 136-142) adds the
  connectivity window. \<^verbatim>\<open>panelStatuses\<close> is a JavaScript object used as a dictionary, kept
  here as an association list; \<^verbatim>\<open>internetConnected\<close> is \<^verbatim>\<open>boolean | null\<close>.
\<close>

record Index_p0 =
  panels :: "Panel list"
  panelStatuses :: "(string \<times> panel_status) list"
  globalSoundEnabled :: bool

record Index = Index_p0 +
  internetConnected :: "bool option"
  packetLossHistory :: "nat list"

text \<open>
  What \<^verbatim>\<open>performPing\<close> reads from its environment: the two draws of \<^verbatim>\<open>Math.random()\<close>,
  the difference of the two \<^verbatim>\<open>performance.now()\<close> readings, the clock of \<^verbatim>\<open>new Date()\<close>,
  and what the network does with the request: after how many milliseconds it settles and how,
  or \<open>None\<close> when it never settles by itself. \<open>abort_message\<close> is the message the platform
  puts on the exception of an aborted request.
\<close>

datatype thrown = ErrorObj string string | NonError

datatype settled = Resolved | Rejected thrown

record PingEnv =
  random1 :: real
  random2 :: real
  elapsed :: real
  clock :: nat
  fetch_outcome :: "(real \<times> settled) option"
  abort_message :: string

text \<open>
  What a probe does to the outside: wait on a timer for so many milliseconds, or send a request
  to a URL with an abort armed after so many milliseconds, the request pending for so long.
\<close>

datatype effect = Sleep real | Fetch string nat real

section \<open>JavaScript primitives\<close>

text \<open>\<^verbatim>\<open>Math.round\<close>: the nearest integer, a tie going up.\<close>

definition Math_round :: "real \<Rightarrow> int" where
  "Math_round x = \<lfloor>x + 1 / 2\<rfloor>"

text \<open>\<^verbatim>\<open>xs.slice(-n)\<close>: the last \<open>n\<close> elements. \<^verbatim>\<open>xs.slice(0, n)\<close> is \<^const>\<open>take\<close>.\<close>

definition slice_last :: "nat \<Rightarrow> 'a list \<Rightarrow> 'a list" where
  "slice_last n xs = drop (length xs - n) xs"

text \<open>\<^verbatim>\<open>Object.values\<close> of a dictionary.\<close>

definition Object_values :: "(string \<times> 'v) list \<Rightarrow> 'v list" where
  "Object_values m = map snd m"

text \<open>\<^verbatim>\<open>panels.find(p => p.id === id)\<close>: the first panel with that id, if any.\<close>

definition find_panel :: "string \<Rightarrow> Panel list \<Rightarrow> Panel option" where
  "find_panel i ps = find (\<lambda>p. panel_id p = i) ps"

text \<open>Decimal rendering of a non-negative integer.\<close>

definition digit_char :: "nat \<Rightarrow> char" where
  "digit_char d = ''0123456789'' ! d"

fun show_nat :: "nat \<Rightarrow> string" where
  "show_nat n =
     (if n < 10 then [digit_char n]
      else show_nat (n div 10) @ [digit_char (n mod 10)])"

declare show_nat.simps [simp del]

text \<open>
  \<^verbatim>\<open>x.toFixed(1)\<close> for a non-negative \<open>x\<close>: the number of tenths nearest to \<open>x\<close>, the larger
  one at a tie, printed with one decimal.
\<close>

definition toFixed1 :: "real \<Rightarrow> string" where
  "toFixed1 x =
     (let n = nat \<lfloor>x * 10 + 1 / 2\<rfloor>
      in show_nat (n div 10) @ ''.'' @ show_nat (n mod 10))"

section \<open>The status aggregator\<close>

text \<open>
  \<^verbatim>\<open>getOverallStatus\<close> (part_000 lines 66-72; the same text in AddPanelButton.tsx lines
  204-210). \<^verbatim>\<open>some\<close> is \<^const>\<open>list_ex\<close> and \<^verbatim>\<open>every\<close> is \<^const>\<open>list_all\<close>.
\<close>

definition getOverallStatus :: "(string \<times> panel_status) list \<Rightarrow> overall_status" where
  "getOverallStatus panelStatuses' =
     (let statuses = Object_values panelStatuses'
      in if list_ex (\<lambda>s. s = Error) statuses then Known Error
         else if list_ex (\<lambda>s. s = Offline) statuses then Known Offline
         else if list_all (\<lambda>s. s = Online) statuses then Known Online
         else Unknown)"

section \<open>The tick handler of a panel\<close>

text \<open>A panel as \<^verbatim>\<open>useState\<close> initialises it for \<^verbatim>\<open>initialTarget\<close> (lines 45-52).\<close>

definition mount :: "string \<Rightarrow> PingPanel" where
  "mount initialTarget =
     \<lparr>target = initialTarget, isRunning = True, results = [], currentStatus = Offline,
      stats = \<lparr>sent = 0, received = 0, lost = 0, avgTime = 0\<rparr>, closure_results = []\<rparr>"

text \<open>
  The effect of line 114 runs again after a render in which one of its dependencies changed,
  and installs a callback that closes over the \<^verbatim>\<open>results\<close> of that render.
\<close>

definition rerun_effect :: "PingPanel \<Rightarrow> PingPanel" where
  "rerun_effect p = p\<lparr>closure_results := results p\<rparr>"

text \<open>
  \<^verbatim>\<open>r.responseTime || 0\<close> summed over the successful entries (lines 129-130).
\<close>

definition sum_success :: "PingResult list \<Rightarrow> int" where
  "sum_success rs =
     foldl (\<lambda>acc r. acc + (case responseTime r of Some t \<Rightarrow> t | None \<Rightarrow> 0)) 0
       (filter (\<lambda>r. status r = Success) rs)"

text \<open>The \<^verbatim>\<open>setStats\<close> updater of lines 125-133; \<open>captured\<close> is the callback's \<^verbatim>\<open>results\<close>.\<close>

definition setStats :: "PingResult list \<Rightarrow> PingResult \<Rightarrow> Stats \<Rightarrow> Stats" where
  "setStats captured result prev =
     (let sent' = sent prev + 1;
          received' = (if status result = Success then received prev + 1 else received prev);
          lost' = sent' - received';
          avgTime' = real_of_int (sum_success captured) / real_of_int (max received' 1)
      in \<lparr>sent = sent', received = received', lost = lost', avgTime = Math_round avgTime'\<rparr>)"

text \<open>The \<^verbatim>\<open>setResults\<close> updater of lines 119-122.\<close>

definition setResults :: "PingResult \<Rightarrow> PingResult list \<Rightarrow> PingResult list" where
  "setResults result prev = take 100 (result # prev)"

text \<open>Lines 136-137.\<close>

definition newStatus :: "PingResult \<Rightarrow> panel_status" where
  "newStatus result =
     (if status result = Success then Online
      else if status result = Timeout then Offline else Error)"

text \<open>
  The interval callback once \<^verbatim>\<open>performPing\<close> has delivered \<open>result\<close> (lines 119-149): the
  new panel state and the status handed to \<^verbatim>\<open>onStatusChange\<close>.
\<close>

definition tick :: "PingResult \<Rightarrow> PingPanel \<Rightarrow> PingPanel \<times> panel_status" where
  "tick result p =
     (p\<lparr>results := setResults result (results p),
        stats := setStats (closure_results p) result (stats p),
        currentStatus := newStatus result\<rparr>,
      newStatus result)"

text \<open>Successive ticks of one panel, no dependency of the effect changing in between.\<close>

fun ticks :: "PingResult list \<Rightarrow> PingPanel \<Rightarrow> PingPanel" where
  "ticks [] p = p"
| "ticks (r # rs) p = ticks rs (fst (tick r p))"

text \<open>The same with the effect run again after every tick (a dependency changed each time).\<close>

fun ticks_rerun :: "PingResult list \<Rightarrow> PingPanel \<Rightarrow> PingPanel" where
  "ticks_rerun [] p = p"
| "ticks_rerun (r # rs) p = ticks_rerun rs (rerun_effect (fst (tick r p)))"

text \<open>A successful result with the given response time.\<close>

definition ok :: "int \<Rightarrow> PingResult" where
  "ok t = \<lparr>timestamp = 0, status = Success, responseTime = Some t, error = None\<rparr>"

section \<open>The prober\<close>

text \<open>
  \<^verbatim>\<open>/^\d+\.\d+\.\d+\.\d+$/\<close> (line 69): four non-empty runs of decimal digits separated by
  three dots, and nothing else. Splitting the string at every dot gives exactly those four runs.
\<close>

definition is_digit :: "char \<Rightarrow> bool" where
  "is_digit c = (c \<in> set ''0123456789'')"

text \<open>\<^verbatim>\<open>\d+\<close>: a non-empty run of decimal digits.\<close>

definition digits :: "string \<Rightarrow> bool" where
  "digits p = (p \<noteq> [] \<and> list_all is_digit p)"

fun split_dots :: "string \<Rightarrow> string list" where
  "split_dots [] = [[]]"
| "split_dots (c # cs) =
     (if c = CHR ''.'' then [] # split_dots cs
      else (case split_dots cs of p # ps \<Rightarrow> (c # p) # ps | [] \<Rightarrow> [[c]]))"

definition matches_ipv4 :: "string \<Rightarrow> bool" where
  "matches_ipv4 s =
     (let parts = split_dots s
      in length parts = 4 \<and> list_all digits parts)"

text \<open>\<^verbatim>\<open>testUrl.startsWith('http') ? testUrl : `https://${testUrl}`\<close> (line 89).\<close>

definition request_url :: "string \<Rightarrow> string" where
  "request_url testUrl = (if take 4 testUrl = ''http'' then testUrl else ''https://'' @ testUrl)"

text \<open>
  \<^verbatim>\<open>fetch\<close> with the signal of a controller whose \<^verbatim>\<open>abort()\<close> is scheduled after \<open>limit\<close>
  milliseconds (lines 86-93): a request that settles before the limit settles as the network
  decides; any other is aborted at the limit and rejects with an \<^verbatim>\<open>AbortError\<close>.
\<close>

definition fetch_with_abort :: "PingEnv \<Rightarrow> nat \<Rightarrow> real \<times> settled" where
  "fetch_with_abort env limit =
     (case fetch_outcome env of
        Some (t, s) \<Rightarrow>
          if t < real limit then (t, s)
          else (real limit, Rejected (ErrorObj ''AbortError'' (abort_message env)))
      | None \<Rightarrow> (real limit, Rejected (ErrorObj ''AbortError'' (abort_message env))))"

text \<open>
  The \<^verbatim>\<open>try\<close> block of \<^verbatim>\<open>performPing\<close> (lines 66-103): what it does to the outside, and
  either the value thrown or the result returned.
\<close>

definition try_block :: "PingEnv \<Rightarrow> string \<Rightarrow> effect list \<times> (thrown + PingResult)" where
  "try_block env targetUrl =
     (if matches_ipv4 targetUrl then
        ([Sleep (random1 env * 100 + 10)],
         if random2 env < 5 / 100 then Inl (ErrorObj ''Error'' ''Request timeout'')
         else Inr \<lparr>timestamp = clock env, status = Success,
                   responseTime = Some (Math_round (elapsed env)), error = None\<rparr>)
      else
        (let (waited, outcome) = fetch_with_abort env 5000
         in ([Fetch (request_url targetUrl) 5000 waited],
             case outcome of
               Rejected e \<Rightarrow> Inl e
             | Resolved \<Rightarrow>
                 Inr \<lparr>timestamp = clock env, status = Success,
                      responseTime = Some (Math_round (elapsed env)), error = None\<rparr>)))"

text \<open>
  The \<^verbatim>\<open>catch\<close> block (lines 104-110). A thrown \<^verbatim>\<open>Error\<close> object has a name and a message
  (\<^verbatim>\<open>new Error(m)\<close> has the name \<^verbatim>\<open>'Error'\<close>); \<open>NonError\<close> is any other thrown value.
\<close>

definition catch_block :: "PingEnv \<Rightarrow> thrown \<Rightarrow> PingResult" where
  "catch_block env e =
     \<lparr>timestamp = clock env,
      status = (case e of
                  ErrorObj name msg \<Rightarrow> if name = ''AbortError'' then Timeout else PingError
                | NonError \<Rightarrow> PingError),
      responseTime = None,
      error = Some (case e of ErrorObj name msg \<Rightarrow> msg | NonError \<Rightarrow> ''Unknown error'')\<rparr>"

definition performPing :: "PingEnv \<Rightarrow> string \<Rightarrow> effect list \<times> PingResult" where
  "performPing env targetUrl =
     (let (effects, r) = try_block env targetUrl
      in (effects, case r of Inl e \<Rightarrow> catch_block env e | Inr result \<Rightarrow> result))"

section \<open>The page: registry, status changes, connectivity window\<close>

text \<open>
  \<^verbatim>\<open>addPanel\<close> and \<^verbatim>\<open>removePanel\<close> have the same text in both pages (part_000 lines 26-42,
  AddPanelButton.tsx lines 146-162). The new id is \<^verbatim>\<open>Date.now().toString()\<close>, a reading of
  the clock, passed in here.
\<close>

definition addPanel :: "string \<Rightarrow> string \<Rightarrow> string \<Rightarrow> 'a Index_p0_scheme \<Rightarrow> 'a Index_p0_scheme" where
  "addPanel new_id target' title' s =
     s\<lparr>panels := panels s @ [\<lparr>panel_id = new_id, panel_target = target', panel_title = title'\<rparr>]\<rparr>"

definition removePanel :: "string \<Rightarrow> 'a Index_p0_scheme \<Rightarrow> 'a Index_p0_scheme" where
  "removePanel i s =
     s\<lparr>panels := filter (\<lambda>panel. panel_id panel \<noteq> i) (panels s),
       panelStatuses := AList.delete i (panelStatuses s)\<rparr>"

text \<open>The text a status has inside a template string.\<close>

fun status_text :: "panel_status \<Rightarrow> string" where
  "status_text Online = ''online''"
| "status_text Offline = ''offline''"
| "status_text Error = ''error''"

text \<open>
  A callback made with \<^verbatim>\<open>useCallback\<close> closes over the values of the render that created
  it. \<^verbatim>\<open>handleStatusChange\<close> reads \<^verbatim>\<open>panels\<close> and \<^verbatim>\<open>globalSoundEnabled\<close> (and, in the
  page with the connectivity window, \<^verbatim>\<open>internetConnected\<close>) from that closure, and the
  statuses and the window from the arguments of the state updaters, which are always the
  current ones. The handlers below therefore take two page states: \<open>c\<close>, the page as it was in
  the render whose callback handles the event, and \<open>s\<close>, the page as it is now. A panel calls
  the callback of the latest render (\<^verbatim>\<open>onStatusChange\<close> is a dependency of its effect) unless
  its probe was already awaiting when the page changed: then it calls the one it started with
  (PingPanel.tsx lines 117 and 149).
\<close>

text \<open>
  \<^verbatim>\<open>handleStatusChange\<close> of part_000 (lines 44-64): the new state and the toasts shown.
  \<^verbatim>\<open>oldStatus\<close> is \<^verbatim>\<open>undefined\<close> (falsy) when the id has no entry, else a non-empty string.
  \<^verbatim>\<open>panels\<close> (line 48) and \<^verbatim>\<open>globalSoundEnabled\<close> (line 52) are those of the closure \<open>c\<close>;
  \<^verbatim>\<open>prev\<close> (line 46) is that of the current state \<open>s\<close>.
\<close>

definition handleStatusChange_p0 ::
  "Index_p0 \<Rightarrow> string \<Rightarrow> panel_status \<Rightarrow> Index_p0 \<Rightarrow> Index_p0 \<times> Toast list" where
  "handleStatusChange_p0 c i st s =
     (let oldStatus = map_of (panelStatuses s) i;
          toasts =
            (if oldStatus \<noteq> None \<and> oldStatus \<noteq> Some st then
               (case find_panel i (panels c) of
                  Some panel \<Rightarrow>
                    if st = Offline \<or> st = Error then
                      (if globalSoundEnabled c then
                         [\<lparr>toast_title = ''Connection Lost'',
                           toast_description =
                             panel_title panel @ '' ('' @ panel_target panel @ '') is ''
                               @ status_text st,
                           toast_variant = ''destructive''\<rparr>]
                       else [])
                    else []
                | None \<Rightarrow> [])
             else [])
      in (s\<lparr>panelStatuses := AList.update i st (panelStatuses s)\<rparr>, toasts))"

definition initial_Index_p0 :: Index_p0 where
  "initial_Index_p0 =
     \<lparr>panels = [\<lparr>panel_id = ''1'', panel_target = ''192.168.1.1'', panel_title = ''Local Gateway''\<rparr>,
                \<lparr>panel_id = ''2'', panel_target = ''8.8.8.8'', panel_title = ''Google DNS''\<rparr>],
      panelStatuses = [], globalSoundEnabled = True\<rparr>"

text \<open>
  \<^verbatim>\<open>packetLossPercentage\<close> (AddPanelButton.tsx lines 174-176). The quotient is exact here; on the
  windows the page can hold (at most 20 samples) the floating-point value compares with 10 and
  rounds to one decimal as the exact one does.
\<close>

definition packetLossPercentage :: "nat list \<Rightarrow> real" where
  "packetLossPercentage newHistory =
     (let totalPings = length newHistory;
          lostPings = sum_list newHistory
      in if totalPings > 0 then (real lostPings / real totalPings) * 100 else 0)"

text \<open>The toast of lines 185-189.\<close>

definition connectivity_toast :: "bool \<Rightarrow> real \<Rightarrow> Toast" where
  "connectivity_toast isConnected pct =
     \<lparr>toast_title = (if isConnected then ''Internet Connected'' else ''Internet Disconnected''),
      toast_description = ''Packet loss: '' @ toFixed1 pct @ ''%'',
      toast_variant = (if isConnected then ''default'' else ''destructive'')\<rparr>"

text \<open>
  \<^verbatim>\<open>handleStatusChange\<close> of the page with the connectivity window (AddPanelButton.tsx lines
  164-202): the new state and the toasts shown. \<^verbatim>\<open>panels\<close> (line 170),
  \<^verbatim>\<open>internetConnected\<close> (line 180) and \<^verbatim>\<open>globalSoundEnabled\<close> (line 184) are those of the
  closure \<open>c\<close>; \<^verbatim>\<open>prev\<close> (line 165) and \<^verbatim>\<open>prevHistory\<close> (line 172) are those of the current
  state \<open>s\<close>.
\<close>

definition handleStatusChange ::
  "Index \<Rightarrow> string \<Rightarrow> panel_status \<Rightarrow> Index \<Rightarrow> Index \<times> Toast list" where
  "handleStatusChange c i st s =
     (let s1 = s\<lparr>panelStatuses := AList.update i st (panelStatuses s)\<rparr>
      in case find_panel i (panels c) of
           None \<Rightarrow> (s1, [])
         | Some panel \<Rightarrow>
             if panel_target panel = ''192.168.1.1'' then
               (let newHistory =
                      slice_last 20 (packetLossHistory s @ [if st = Online then 0 else 1]);
                    totalPings = length newHistory;
                    pct = packetLossPercentage newHistory
                in if totalPings \<ge> 10 then
                     (let wasConnected = internetConnected c;
                          isConnected = (pct < 10)
                      in (s1\<lparr>packetLossHistory := newHistory,
                             internetConnected := Some isConnected\<rparr>,
                          if wasConnected \<noteq> None \<and> wasConnected \<noteq> Some isConnected then
                            (if globalSoundEnabled c then [connectivity_toast isConnected pct]
                             else [])
                          else []))
                   else (s1\<lparr>packetLossHistory := newHistory\<rparr>, []))
             else (s1, []))"

definition initial_Index :: Index where
  "initial_Index =
     \<lparr>panels = [\<lparr>panel_id = ''1'', panel_target = ''192.168.1.1'', panel_title = ''Local Gateway''\<rparr>],
      panelStatuses = [], globalSoundEnabled = True,
      internetConnected = None, packetLossHistory = []\<rparr>"

text \<open>
  What can happen to the page, and a sequence of such events from a given state.
  \<open>StatusChange\<close> is a status event handled by the callback of the latest render;
  \<open>LateStatusChange c\<close> is one handled by the callback of an earlier render \<open>c\<close>, from a probe
  that was awaiting while the page changed. Any \<open>c\<close> is admitted, which covers every earlier
  render.
\<close>

datatype 'c action =
    AddPanel string string string
  | RemovePanel string
  | StatusChange string panel_status
  | LateStatusChange 'c string panel_status
  | ToggleSound

fun step :: "Index action \<Rightarrow> Index \<Rightarrow> Index \<times> Toast list" where
  "step (AddPanel new_id target' title') s = (addPanel new_id target' title' s, [])"
| "step (RemovePanel i) s = (removePanel i s, [])"
| "step (StatusChange i st) s = handleStatusChange s i st s"
| "step (LateStatusChange c i st) s = handleStatusChange c i st s"
| "step ToggleSound s = (s\<lparr>globalSoundEnabled := \<not> globalSoundEnabled s\<rparr>, [])"

fun run :: "Index action list \<Rightarrow> Index \<Rightarrow> Index" where
  "run [] s = s"
| "run (a # as) s = run as (fst (step a s))"

text \<open>The verdict the window shows (line 241).\<close>

datatype verdict = Connected | Disconnected | Detecting

definition verdict_of :: "Index \<Rightarrow> verdict" where
  "verdict_of s =
     (case internetConnected s of
        None \<Rightarrow> Detecting
      | Some c \<Rightarrow> if c then Connected else Disconnected)"

section \<open>The page with its mounted panels\<close>

text \<open>
  The page renders one \<^verbatim>\<open>PingPanel\<close> per entry of \<^verbatim>\<open>panels\<close>, keyed by its id and given the
  entry's target as \<^verbatim>\<open>initialTarget\<close> (AddPanelButton.tsx lines 292-303). The panel keeps its
  own \<^verbatim>\<open>target\<close> state from then on; the input of its settings calls only the panel's
  \<^verbatim>\<open>setTarget\<close> (PingPanel.tsx line 338).
\<close>

record App =
  index :: Index
  mounted :: "(string \<times> PingPanel) list"

definition initial_App :: App where
  "initial_App = \<lparr>index = initial_Index, mounted = [(''1'', mount ''192.168.1.1'')]\<rparr>"

text \<open>
  When \<^verbatim>\<open>panels\<close>, \<^verbatim>\<open>globalSoundEnabled\<close> or \<^verbatim>\<open>internetConnected\<close> changes, the page makes a
  new \<^verbatim>\<open>handleStatusChange\<close> (AddPanelButton.tsx line 202) and hands it to every panel;
  \<^verbatim>\<open>onStatusChange\<close> is a dependency of the panel's effect (PingPanel.tsx line 158), so every
  panel installs its interval anew and the new callback closes over the panel's \<^verbatim>\<open>results\<close>
  of that render.
\<close>

definition refresh_callbacks :: "(string \<times> PingPanel) list \<Rightarrow> (string \<times> PingPanel) list" where
  "refresh_callbacks ms = map (\<lambda>(k, p). (k, rerun_effect p)) ms"

text \<open>\<^verbatim>\<open>setPanels\<close> always stores a new array, so adding and removing make a new callback.\<close>

definition app_addPanel :: "string \<Rightarrow> string \<Rightarrow> string \<Rightarrow> App \<Rightarrow> App" where
  "app_addPanel new_id target' title' app =
     \<lparr>index = addPanel new_id target' title' (index app),
      mounted = refresh_callbacks (mounted app @ [(new_id, mount target')])\<rparr>"

definition app_removePanel :: "string \<Rightarrow> App \<Rightarrow> App" where
  "app_removePanel i app =
     \<lparr>index = removePanel i (index app),
      mounted = refresh_callbacks (AList.delete i (mounted app))\<rparr>"

text \<open>
  The user edits the target of panel \<open>i\<close>: the panel's state changes and, \<^verbatim>\<open>target\<close> being a
  dependency of its effect, the interval is installed anew.
\<close>

definition app_setTarget :: "string \<Rightarrow> string \<Rightarrow> App \<Rightarrow> App" where
  "app_setTarget i t app =
     (case map_of (mounted app) i of
        None \<Rightarrow> app
      | Some p \<Rightarrow> app\<lparr>mounted := AList.update i (rerun_effect (p\<lparr>target := t\<rparr>)) (mounted app)\<rparr>)"

text \<open>
  A tick of panel \<open>i\<close> during which nothing else happens to the page: the interval exists only
  while \<^verbatim>\<open>isRunning && target\<close> (line 115); the callback probes the panel's own target, updates
  the panel and calls \<^verbatim>\<open>onStatusChange\<close>, here the callback of the latest render. Of the
  dependencies of that callback a status event can change \<^verbatim>\<open>internetConnected\<close> only; when
  it does, every panel gets the new callback.
\<close>

definition app_tick :: "string \<Rightarrow> PingEnv \<Rightarrow> App \<Rightarrow> App \<times> Toast list" where
  "app_tick i env app =
     (case map_of (mounted app) i of
        None \<Rightarrow> (app, [])
      | Some p \<Rightarrow>
          if isRunning p \<and> target p \<noteq> [] then
            (let result = snd (performPing env (target p));
                 (p', st) = tick result p;
                 (index', toasts) = handleStatusChange (index app) i st (index app);
                 mounted' = AList.update i p' (mounted app)
             in (\<lparr>index = index',
                  mounted = (if internetConnected index' = internetConnected (index app)
                             then mounted' else refresh_callbacks mounted')\<rparr>,
                 toasts))
          else (app, []))"

text \<open>Successive ticks of panel \<open>i\<close>, one environment for each probe.\<close>

fun app_ticks :: "string \<Rightarrow> PingEnv list \<Rightarrow> App \<Rightarrow> App" where
  "app_ticks i [] app = app"
| "app_ticks i (env # envs) app = app_ticks i envs (fst (app_tick i env app))"

section \<open>Derived notions used in the statements\<close>

text \<open>
  The test of line 171 of AddPanelButton.tsx, \<^verbatim>\<open>panel && panel.target === '192.168.1.1'\<close>:
  whether the callback of a render in which the page was \<open>s\<close> lets a status event of id \<open>i\<close>
  feed the connectivity window.
\<close>

definition designated :: "string \<Rightarrow> Index \<Rightarrow> bool" where
  "designated i s =
     (case find_panel i (panels s) of
        None \<Rightarrow> False
      | Some panel \<Rightarrow> panel_target panel = ''192.168.1.1'')"

text \<open>The sample of line 173: \<^verbatim>\<open>status === 'online' ? 0 : 1\<close>.\<close>

definition sample :: "panel_status \<Rightarrow> nat" where
  "sample st = (if st = Online then 0 else 1)"



text \<open>Event sequences of the gateway panel of the initial page.\<close>

abbreviation gw_online :: "'c action" where
  "gw_online \<equiv> StatusChange ''1'' Online"

abbreviation gw_offline :: "'c action" where
  "gw_offline \<equiv> StatusChange ''1'' Offline"



definition ten_online :: "Index action list" where
  "ten_online =
     [gw_online, gw_online, gw_online, gw_online, gw_online,
      gw_online, gw_online, gw_online, gw_online, gw_online]"

definition ten_online_one_offline :: "Index action list" where
  "ten_online_one_offline = ten_online @ [gw_offline]"

definition muted_ten_online_one_offline :: "Index action list" where
  "muted_ten_online_one_offline = ten_online @ [ToggleSound, gw_offline]"

text \<open>
  A page with a second panel for the gateway address: after ten online results of the first
  panel, and after two further offline results of it.
\<close>

definition two_gateway_page :: Index where
  "two_gateway_page = addPanel ''1700000000000'' ''192.168.1.1'' ''Router again'' initial_Index"

definition connected_page :: Index where
  "connected_page = run ten_online two_gateway_page"

definition disconnected_page :: Index where
  "disconnected_page = run [gw_offline, gw_offline] connected_page"

text \<open>The events of the page of part_000, and a sequence of them.\<close>

fun step_p0 :: "Index_p0 action \<Rightarrow> Index_p0 \<Rightarrow> Index_p0 \<times> Toast list" where
  "step_p0 (AddPanel new_id target' title') s = (addPanel new_id target' title' s, [])"
| "step_p0 (RemovePanel i) s = (removePanel i s, [])"
| "step_p0 (StatusChange i st) s = handleStatusChange_p0 s i st s"
| "step_p0 (LateStatusChange c i st) s = handleStatusChange_p0 c i st s"
| "step_p0 ToggleSound s = (s\<lparr>globalSoundEnabled := \<not> globalSoundEnabled s\<rparr>, [])"

fun run_p0 :: "Index_p0 action list \<Rightarrow> Index_p0 \<Rightarrow> Index_p0" where
  "run_p0 [] s = s"
| "run_p0 (a # as) s = run_p0 as (fst (step_p0 a s))"

definition gateway_seen_online :: Index_p0 where
  "gateway_seen_online =
     run_p0 [AddPanel ''3'' ''github.com'' ''GitHub'', gw_online] initial_Index_p0"

text \<open>
  Environments of a probe: one whose second random draw is below 0.05; a network that never
  answers; one that refuses the connection after 40 ms; one that answers after 120 ms.
\<close>

definition lossy_env :: PingEnv where
  "lossy_env =
     \<lparr>random1 = 1 / 2, random2 = 1 / 100, elapsed = 61, clock = 0,
      fetch_outcome = None, abort_message = ''signal is aborted without reason''\<rparr>"

definition silent_env :: PingEnv where
  "silent_env =
     \<lparr>random1 = 1 / 2, random2 = 1 / 2, elapsed = 5001, clock = 0,
      fetch_outcome = None, abort_message = ''signal is aborted without reason''\<rparr>"

definition refusing_env :: PingEnv where
  "refusing_env =
     \<lparr>random1 = 1 / 2, random2 = 1 / 2, elapsed = 40, clock = 0,
      fetch_outcome = Some (40, Rejected (ErrorObj ''TypeError'' ''Failed to fetch'')),
      abort_message = ''signal is aborted without reason''\<rparr>"

definition answering_env :: PingEnv where
  "answering_env =
     \<lparr>random1 = 1 / 2, random2 = 1 / 2, elapsed = 241 / 2, clock = 0,
      fetch_outcome = Some (120, Resolved),
      abort_message = ''signal is aborted without reason''\<rparr>"

text \<open>An environment in which a simulated probe succeeds after 20 ms, and eleven of them.\<close>

definition steady_env :: PingEnv where
  "steady_env =
     \<lparr>random1 = 1 / 10, random2 = 1 / 2, elapsed = 20, clock = 0,
      fetch_outcome = None, abort_message = ''signal is aborted without reason''\<rparr>"

definition eleven_steady :: "PingEnv list" where
  "eleven_steady =
     [steady_env, steady_env, steady_env, steady_env, steady_env, steady_env,
      steady_env, steady_env, steady_env, steady_env, steady_env]"

text \<open>
  The initial page after the user has typed another target into the settings of the gateway
  panel; and a page with a second panel for the gateway address.
\<close>

definition gateway_edited :: App where
  "gateway_edited = app_setTarget ''1'' ''example.com'' initial_App"

definition two_gateways :: App where
  "two_gateways = app_addPanel ''1700000000000'' ''192.168.1.1'' ''Router again'' initial_App"

section \<open>Results\<close>

lemmas page_step_defs =
  handleStatusChange_def find_panel_def slice_last_def
  packetLossPercentage_def Let_def removePanel_def addPanel_def verdict_of_def
  connectivity_toast_def

lemmas page_defs = initial_Index_def page_step_defs

lemmas panel_defs =
  tick_def setStats_def setResults_def mount_def ok_def sum_success_def Math_round_def
  newStatus_def rerun_effect_def

subsection \<open>Status aggregator\<close>

lemma getOverallStatus_Error:
  "Error \<in> snd ` set m \<Longrightarrow> getOverallStatus m = Known Error"
  by (auto simp: getOverallStatus_def Object_values_def list_ex_iff)

lemma getOverallStatus_Offline:
  "Error \<notin> snd ` set m \<Longrightarrow> Offline \<in> snd ` set m \<Longrightarrow> getOverallStatus m = Known Offline"
  by (auto simp: getOverallStatus_def Object_values_def list_ex_iff)

lemma getOverallStatus_Online:
  "Error \<notin> snd ` set m \<Longrightarrow> Offline \<notin> snd ` set m \<Longrightarrow> getOverallStatus m = Known Online"
proof -
  assume e: "Error \<notin> snd ` set m" and off: "Offline \<notin> snd ` set m"
  have "\<forall>x \<in> set m. snd x = Online"
  proof
    fix x assume "x \<in> set m"
    then have "snd x \<in> snd ` set m" by (rule imageI)
    then have "snd x \<noteq> Error" "snd x \<noteq> Offline" using e off by metis+
    then show "snd x = Online" by (cases "snd x") auto
  qed
  then show ?thesis
    using e off by (auto simp: getOverallStatus_def Object_values_def list_ex_iff list_all_iff)
qed

lemma getOverallStatus_never_Unknown: "getOverallStatus m \<noteq> Unknown"
  using getOverallStatus_Error [of m] getOverallStatus_Offline [of m] getOverallStatus_Online [of m]
  by (cases "Error \<in> snd ` set m"; cases "Offline \<in> snd ` set m") auto

text \<open>
  C2. The claim has the overall status of the empty set of statuses be Unknown. The page
  starts with no status recorded, and there \<^verbatim>\<open>every\<close> holds of the empty list: the
  aggregator answers Online, for the empty dictionary and for the initial pages.
\<close>

theorem getOverallStatus_empty_is_Online:
  "getOverallStatus [] = Known Online
   \<and> getOverallStatus (panelStatuses initial_Index_p0) = Known Online
   \<and> getOverallStatus (panelStatuses initial_Index) = Known Online"
  by (simp add: getOverallStatus_def Object_values_def initial_Index_p0_def initial_Index_def)

subsection \<open>Statistics of a panel\<close>

text \<open>
  C1. Scenario A of the claim: a fresh panel for 8.8.8.8 and three successful ticks with
  response times 20, 30 and 40 ms. The claim has the average be 30. The callback sums the
  \<^verbatim>\<open>results\<close> it closed over, which is the empty list of the first render as long as no
  dependency of the effect changes: the average stays 0. Were the effect run again after every
  tick, the sum would still leave out the result of the tick itself and be divided by the
  count that includes it: 17.
\<close>

theorem avgTime_scenario_A:
  "stats (ticks [ok 20, ok 30, ok 40] (mount ''8.8.8.8''))
     = \<lparr>sent = 3, received = 3, lost = 0, avgTime = 0\<rparr>
   \<and> stats (ticks_rerun [ok 20, ok 30, ok 40] (mount ''8.8.8.8''))
     = \<lparr>sent = 3, received = 3, lost = 0, avgTime = 17\<rparr>"
  by (simp add: panel_defs)

subsection \<open>History of a panel\<close>

lemma results_tick: "results (fst (tick r p)) = take 100 (r # results p)"
  by (simp add: tick_def setResults_def)

lemma take_append_take: "take n (xs @ take n ys) = take n (xs @ ys)"
  by (simp add: min_def)

lemma results_ticks:
  "length (results p) \<le> 100 \<Longrightarrow> results (ticks rs p) = take 100 (rev rs @ results p)"
proof (induction rs arbitrary: p)
  case Nil
  then show ?case by simp
next
  case (Cons r rs)
  have "length (results (fst (tick r p))) \<le> 100"
    by (simp add: results_tick)
  then have "results (ticks rs (fst (tick r p))) = take 100 (rev rs @ take 100 (r # results p))"
    using Cons.IH results_tick by metis
  then show ?case
    using take_append_take [of 100 "rev rs" "r # results p"] by simp
qed

text \<open>
  C6. After the ticks that delivered the results \<open>rs\<close> (oldest first) to a fresh panel, the
  history is the most recent 100 of them, most recent first; it never holds more than 100
  entries; a tick on a full history drops exactly its last, oldest entry, and a tick on a
  shorter one drops nothing.
\<close>

theorem history_most_recent_first_bounded:
  "results (ticks rs (mount t)) = take 100 (rev rs)
   \<and> length (results (ticks rs (mount t))) \<le> 100
   \<and> (length (results p) = 100 \<longrightarrow> results (fst (tick r p)) = r # butlast (results p))
   \<and> (length (results p) < 100 \<longrightarrow> results (fst (tick r p)) = r # results p)"
proof -
  have a: "results (ticks rs (mount t)) = take 100 (rev rs)"
    using results_ticks [of "mount t" rs] by (simp add: mount_def)
  have b: "length (results p) = 100 \<longrightarrow> results (fst (tick r p)) = r # butlast (results p)"
    by (simp add: results_tick butlast_conv_take)
  have c: "length (results p) < 100 \<longrightarrow> results (fst (tick r p)) = r # results p"
    by (simp add: results_tick)
  show ?thesis using a b c by simp
qed

theorem history_most_recent_first_bounded_witness:
  "length (results (ticks (replicate 100 (ok 1)) (mount ''8.8.8.8''))) = 100
   \<and> results (fst (tick (ok 7) (ticks (replicate 100 (ok 1)) (mount ''8.8.8.8''))))
       = ok 7 # butlast (replicate 100 (ok 1))
   \<and> length (results (mount ''8.8.8.8'')) < 100
   \<and> results (fst (tick (ok 7) (mount ''8.8.8.8''))) = [ok 7]"
  using history_most_recent_first_bounded
          [of "replicate 100 (ok 1)" "''8.8.8.8''"
              "ticks (replicate 100 (ok 1)) (mount ''8.8.8.8'')" "ok 7"]
        history_most_recent_first_bounded [of "[]" "''8.8.8.8''" "mount ''8.8.8.8''" "ok 7"]
  by (simp add: mount_def)

subsection \<open>Connectivity window\<close>




lemma history_step:
  "packetLossHistory (fst (handleStatusChange c i st s)) =
     (if designated i c then slice_last 20 (packetLossHistory s @ [sample st])
      else packetLossHistory s)"
  by (simp add: handleStatusChange_def designated_def sample_def Let_def split: option.splits)

lemma verdict_step:
  "internetConnected (fst (handleStatusChange c i st s)) =
     (if designated i c \<and> 10 \<le> length (slice_last 20 (packetLossHistory s @ [sample st]))
      then Some (packetLossPercentage (slice_last 20 (packetLossHistory s @ [sample st])) < 10)
      else internetConnected s)"
  by (simp add: handleStatusChange_def designated_def sample_def Let_def split: option.splits)











subsection \<open>Prober\<close>

lemmas prober_defs =
  performPing_def try_block_def catch_block_def fetch_with_abort_def request_url_def
  matches_ipv4_def digits_def is_digit_def Math_round_def

text \<open>The matcher accepts exactly the strings of the shape of the regular expression.\<close>

lemma split_dots_nonempty: "split_dots s \<noteq> []"
  by (induction s) (auto split: list.splits)

lemma split_dots_plain: "CHR ''.'' \<notin> set a \<Longrightarrow> split_dots a = [a]"
  by (induction a) auto

lemma split_dots_append:
  "CHR ''.'' \<notin> set a \<Longrightarrow> split_dots (a @ CHR ''.'' # rest) = a # split_dots rest"
  by (induction a) auto

lemma dot_not_digit: "\<not> is_digit CHR ''.''"
  by (simp add: is_digit_def)

lemma digits_no_dot: "digits p \<Longrightarrow> CHR ''.'' \<notin> set p"
proof
  assume "digits p" and "CHR ''.'' \<in> set p"
  then have "is_digit CHR ''.''" by (simp add: digits_def list_all_iff)
  then show False using dot_not_digit by simp
qed

lemma split_dots_Cons:
  "split_dots s = p # ps \<Longrightarrow> ps \<noteq> [] \<Longrightarrow>
   \<exists>rest. s = p @ CHR ''.'' # rest \<and> split_dots rest = ps"
proof (induction s arbitrary: p)
  case Nil
  then show ?case by simp
next
  case (Cons c cs)
  show ?case
  proof (cases "c = CHR ''.''")
    case True
    then have "p = []" and "split_dots cs = ps" using Cons.prems(1) by simp_all
    then have "c # cs = p @ CHR ''.'' # cs \<and> split_dots cs = ps" using True by simp
    then show ?thesis by (rule exI)
  next
    case False
    obtain q qs where q: "split_dots cs = q # qs"
      using split_dots_nonempty [of cs] by (cases "split_dots cs") simp_all
    with False Cons.prems(1) have pq: "p = c # q" and "qs = ps" by simp_all
    then have "split_dots cs = q # ps" using q by simp
    from Cons.IH [OF this Cons.prems(2)] obtain rest
      where rest: "cs = q @ CHR ''.'' # rest" "split_dots rest = ps" by blast
    have "c # cs = p @ CHR ''.'' # rest \<and> split_dots rest = ps"
      using rest pq by simp
    then show ?thesis by (rule exI)
  qed
qed

lemma split_dots_single: "split_dots s = [p] \<Longrightarrow> s = p"
proof (induction s arbitrary: p)
  case Nil
  then show ?case by simp
next
  case (Cons c cs)
  show ?case
  proof (cases "c = CHR ''.''")
    case True
    then have "split_dots cs = []" using Cons.prems by simp
    then show ?thesis using split_dots_nonempty [of cs] by simp
  next
    case False
    obtain q qs where q: "split_dots cs = q # qs"
      using split_dots_nonempty [of cs] by (cases "split_dots cs") simp_all
    with False Cons.prems have pq: "p = c # q" and "qs = []" by simp_all
    then have "split_dots cs = [q]" using q by simp
    then have "cs = q" by (rule Cons.IH)
    then show ?thesis using pq by simp
  qed
qed

lemma length_four:
  assumes "length xs = 4"
  shows "\<exists>a b c d. xs = [a, b, c, d]"
proof -
  from assms have "length xs = Suc (Suc (Suc (Suc 0)))" by simp
  then obtain a x1 where 1: "xs = a # x1" "length x1 = Suc (Suc (Suc 0))"
    by (auto simp: length_Suc_conv)
  then obtain b x2 where 2: "x1 = b # x2" "length x2 = Suc (Suc 0)"
    by (auto simp: length_Suc_conv)
  then obtain c x3 where 3: "x2 = c # x3" "length x3 = Suc 0"
    by (auto simp: length_Suc_conv)
  then obtain d where 4: "x3 = [d]"
    by (auto simp: length_Suc_conv)
  show ?thesis using 1 2 3 4 by simp
qed

lemma matches_ipv4_iff:
  "matches_ipv4 s \<longleftrightarrow>
     (\<exists>a b c d. digits a \<and> digits b \<and> digits c \<and> digits d
        \<and> s = a @ ''.'' @ b @ ''.'' @ c @ ''.'' @ d)"
proof
  assume "matches_ipv4 s"
  then have len: "length (split_dots s) = 4"
    and all: "list_all digits (split_dots s)"
    by (simp_all add: matches_ipv4_def Let_def)
  from len obtain a b c d where parts: "split_dots s = [a, b, c, d]"
    using length_four by blast
  have dg: "digits a" "digits b" "digits c" "digits d"
    using all by (simp_all add: parts)
  have "[b, c, d] \<noteq> []" by simp
  from split_dots_Cons [OF parts this] obtain r1
    where r1: "s = a @ CHR ''.'' # r1" "split_dots r1 = [b, c, d]" by blast
  have "[c, d] \<noteq> []" by simp
  from split_dots_Cons [OF r1(2) this] obtain r2
    where r2: "r1 = b @ CHR ''.'' # r2" "split_dots r2 = [c, d]" by blast
  have "[d] \<noteq> []" by simp
  from split_dots_Cons [OF r2(2) this] obtain r3
    where r3: "r2 = c @ CHR ''.'' # r3" "split_dots r3 = [d]" by blast
  have "r3 = d" using split_dots_single [OF r3(2)] .
  then have "s = a @ ''.'' @ b @ ''.'' @ c @ ''.'' @ d" using r1 r2 r3 by simp
  then show "\<exists>a b c d. digits a \<and> digits b \<and> digits c \<and> digits d
        \<and> s = a @ ''.'' @ b @ ''.'' @ c @ ''.'' @ d" using dg by blast
next
  assume "\<exists>a b c d. digits a \<and> digits b \<and> digits c \<and> digits d
        \<and> s = a @ ''.'' @ b @ ''.'' @ c @ ''.'' @ d"
  then obtain a b c d where dg: "digits a" "digits b" "digits c" "digits d"
    and s: "s = a @ ''.'' @ b @ ''.'' @ c @ ''.'' @ d" by blast
  have "split_dots s = [a, b, c, d]"
    using dg by (simp add: s split_dots_append split_dots_plain digits_no_dot)
  then show "matches_ipv4 s"
    using dg by (simp add: matches_ipv4_def)
qed

text \<open>
  The simulated branch sends no request and waits between 10 and 110 ms; its result is decided
  by the second random draw alone.
\<close>

lemma simulated_branch:
  assumes "matches_ipv4 a"
  shows "fst (performPing env a) = [Sleep (random1 env * 100 + 10)]"
    and "random2 env < 5 / 100 \<Longrightarrow>
           snd (performPing env a) =
             \<lparr>timestamp = clock env, status = PingError, responseTime = None,
              error = Some ''Request timeout''\<rparr>"
    and "\<not> random2 env < 5 / 100 \<Longrightarrow>
           snd (performPing env a) =
             \<lparr>timestamp = clock env, status = Success,
              responseTime = Some (Math_round (elapsed env)), error = None\<rparr>"
  using assms by (simp_all add: performPing_def try_block_def catch_block_def)

lemma simulated_delay_bounded:
  assumes "matches_ipv4 a" and "0 \<le> random1 env" and "random1 env < 1"
  shows "\<exists>d. fst (performPing env a) = [Sleep d] \<and> 10 \<le> d \<and> d < 110"
  using assms simulated_branch(1) [of a env] by simp

text \<open>
  C3. The claim has a failure of the simulated probe classified as Timeout. The simulated
  branch throws \<^verbatim>\<open>new Error('Request timeout')\<close>, whose name is \<^verbatim>\<open>'Error'\<close>, and the
  \<^verbatim>\<open>catch\<close> block gives Timeout to the name \<^verbatim>\<open>'AbortError'\<close> only: for the IPv4 literal
  8.8.8.8 and a second random draw of 0.01 the probe waits 60 ms, sends nothing, and returns
  status Error with the message "Request timeout".
\<close>

theorem simulated_failure_is_error:
  "matches_ipv4 ''8.8.8.8''
   \<and> random2 lossy_env < 5 / 100
   \<and> performPing lossy_env ''8.8.8.8''
       = ([Sleep 60],
          \<lparr>timestamp = 0, status = PingError, responseTime = None,
           error = Some ''Request timeout''\<rparr>)
   \<and> newStatus (snd (performPing lossy_env ''8.8.8.8'')) = Error"
  by (simp add: prober_defs lossy_env_def newStatus_def)

lemma outcome_invariant:
  "(status (snd (performPing env a)) = Success
      \<longleftrightarrow> responseTime (snd (performPing env a)) \<noteq> None)
   \<and> (status (snd (performPing env a)) \<noteq> Success
      \<longleftrightarrow> error (snd (performPing env a)) \<noteq> None)"
  by (auto simp: performPing_def try_block_def catch_block_def fetch_with_abort_def Let_def
        split: prod.splits sum.splits settled.splits thrown.splits option.splits if_splits)

lemma hostname_effects:
  "\<not> matches_ipv4 a \<Longrightarrow>
   \<exists>w. fst (performPing env a) = [Fetch (request_url a) 5000 w] \<and> w \<le> 5000"
  by (auto simp: performPing_def try_block_def fetch_with_abort_def Let_def
        split: prod.splits option.splits if_splits)

lemma hostname_timeout:
  "\<not> matches_ipv4 a \<Longrightarrow>
   fetch_outcome env = None \<or> (\<exists>t s. fetch_outcome env = Some (t, s) \<and> 5000 \<le> t) \<Longrightarrow>
   snd (performPing env a) =
     \<lparr>timestamp = clock env, status = Timeout, responseTime = None,
      error = Some (abort_message env)\<rparr>"
  by (auto simp: performPing_def try_block_def fetch_with_abort_def catch_block_def Let_def
        split: prod.splits option.splits if_splits)

lemma hostname_error:
  "\<not> matches_ipv4 a \<Longrightarrow> fetch_outcome env = Some (t, Rejected (ErrorObj name msg)) \<Longrightarrow>
   t < 5000 \<Longrightarrow> name \<noteq> ''AbortError'' \<Longrightarrow>
   snd (performPing env a) =
     \<lparr>timestamp = clock env, status = PingError, responseTime = None, error = Some msg\<rparr>"
  by (auto simp: performPing_def try_block_def fetch_with_abort_def catch_block_def Let_def
        split: prod.splits option.splits if_splits)

lemma hostname_success:
  "\<not> matches_ipv4 a \<Longrightarrow> fetch_outcome env = Some (t, Resolved) \<Longrightarrow> t < 5000 \<Longrightarrow>
   snd (performPing env a) =
     \<lparr>timestamp = clock env, status = Success,
      responseTime = Some (Math_round (elapsed env)), error = None\<rparr>"
  by (auto simp: performPing_def try_block_def fetch_with_abort_def catch_block_def Let_def
        split: prod.splits option.splits if_splits)

text \<open>
  C7. Whatever the address and whatever the environment does, the probe returns a result that
  is a success with a response time and no error text, or a failure with an error text and no
  response time: nothing thrown inside leaves it. For an address that is not an IPv4 literal
  the probe sends one request with an abort armed at 5000 ms and waits for it at most that
  long; a request that has not settled before 5000 ms gives Timeout; a rejection before that
  with an error of another name gives Error with that error's message; a response before that
  gives Success with the rounded elapsed time.
\<close>

theorem performPing_classifies:
  "(status (snd (performPing env a)) = Success
      \<longleftrightarrow> responseTime (snd (performPing env a)) \<noteq> None)
   \<and> (status (snd (performPing env a)) \<noteq> Success
      \<longleftrightarrow> error (snd (performPing env a)) \<noteq> None)
   \<and> (\<not> matches_ipv4 a \<longrightarrow>
        (\<exists>w. fst (performPing env a) = [Fetch (request_url a) 5000 w] \<and> w \<le> 5000)
        \<and> (fetch_outcome env = None \<or> (\<exists>t' s. fetch_outcome env = Some (t', s) \<and> 5000 \<le> t')
             \<longrightarrow> snd (performPing env a) =
                   \<lparr>timestamp = clock env, status = Timeout, responseTime = None,
                    error = Some (abort_message env)\<rparr>)
        \<and> (fetch_outcome env = Some (t, Rejected (ErrorObj name msg)) \<and> t < 5000
             \<and> name \<noteq> ''AbortError''
             \<longrightarrow> snd (performPing env a) =
                   \<lparr>timestamp = clock env, status = PingError, responseTime = None,
                    error = Some msg\<rparr>)
        \<and> (fetch_outcome env = Some (t, Resolved) \<and> t < 5000
             \<longrightarrow> snd (performPing env a) =
                   \<lparr>timestamp = clock env, status = Success,
                    responseTime = Some (Math_round (elapsed env)), error = None\<rparr>))"
  using outcome_invariant [of env a] hostname_effects [of a env] hostname_timeout [of a env]
        hostname_error [of a env t name msg] hostname_success [of a env t]
  by blast

theorem performPing_classifies_witness:
  "\<not> matches_ipv4 ''google.com''
   \<and> fetch_outcome silent_env = None
   \<and> snd (performPing silent_env ''google.com'') =
        \<lparr>timestamp = 0, status = Timeout, responseTime = None,
         error = Some ''signal is aborted without reason''\<rparr>
   \<and> snd (performPing refusing_env ''google.com'') =
        \<lparr>timestamp = 0, status = PingError, responseTime = None,
         error = Some ''Failed to fetch''\<rparr>
   \<and> snd (performPing answering_env ''google.com'') =
        \<lparr>timestamp = 0, status = Success, responseTime = Some 121, error = None\<rparr>"
proof -
  have host: "\<not> matches_ipv4 ''google.com''"
    by (simp add: matches_ipv4_def digits_def is_digit_def)
  have silent: "fetch_outcome silent_env = None"
    by (simp add: silent_env_def)
  have refusing:
    "fetch_outcome refusing_env = Some (40, Rejected (ErrorObj ''TypeError'' ''Failed to fetch''))
     \<and> (40::real) < 5000 \<and> ''TypeError'' \<noteq> ''AbortError''"
    by (simp add: refusing_env_def)
  have answering: "fetch_outcome answering_env = Some (120, Resolved) \<and> (120::real) < 5000"
    by (simp add: answering_env_def)
  have 1: "snd (performPing silent_env ''google.com'') =
        \<lparr>timestamp = clock silent_env, status = Timeout, responseTime = None,
         error = Some (abort_message silent_env)\<rparr>"
    using performPing_classifies [of silent_env "''google.com''"] host silent by blast
  have 2: "snd (performPing refusing_env ''google.com'') =
        \<lparr>timestamp = clock refusing_env, status = PingError, responseTime = None,
         error = Some ''Failed to fetch''\<rparr>"
    using performPing_classifies
            [of refusing_env "''google.com''" 40 "''TypeError''" "''Failed to fetch''"]
          host refusing by blast
  have 3: "snd (performPing answering_env ''google.com'') =
        \<lparr>timestamp = clock answering_env, status = Success,
         responseTime = Some (Math_round (elapsed answering_env)), error = None\<rparr>"
    using performPing_classifies [of answering_env "''google.com''" 120] host answering by blast
  show ?thesis
    using host silent 1 2 3
    by (simp add: silent_env_def refusing_env_def answering_env_def Math_round_def)
qed

subsection \<open>Removal and the connectivity window\<close>

lemma run_ten_online:
  "run ten_online initial_Index =
     \<lparr>panels = [\<lparr>panel_id = ''1'', panel_target = ''192.168.1.1'',
                  panel_title = ''Local Gateway''\<rparr>],
      panelStatuses = [(''1'', Online)], globalSoundEnabled = True,
      internetConnected = Some True, packetLossHistory = [0, 0, 0, 0, 0, 0, 0, 0, 0, 0]\<rparr>"
  by (simp add: ten_online_def page_defs)

text \<open>
  C5, as stated, fails: after ten online results of the gateway panel the window holds ten
  samples with the verdict Connected, the panel is the designated one, and after its removal
  the window still holds the ten samples and the verdict is still Connected.
\<close>

theorem removal_keeps_window_counterexample:
  "designated ''1'' (run ten_online initial_Index)
   \<and> panels (fst (step (RemovePanel ''1'') (run ten_online initial_Index))) = []
   \<and> packetLossHistory (fst (step (RemovePanel ''1'') (run ten_online initial_Index)))
        = [0, 0, 0, 0, 0, 0, 0, 0, 0, 0]
   \<and> verdict_of (fst (step (RemovePanel ''1'') (run ten_online initial_Index))) = Connected"
  by (simp add: run_ten_online designated_def page_step_defs)

text \<open>No event of the page empties the window or takes a verdict back.\<close>

lemma window_never_resets:
  "(packetLossHistory s \<noteq> [] \<longrightarrow> packetLossHistory (run as s) \<noteq> [])
   \<and> (internetConnected s \<noteq> None \<longrightarrow> internetConnected (run as s) \<noteq> None)"
proof (induction as arbitrary: s)
  case Nil
  then show ?case by simp
next
  case (Cons a as)
  have "(packetLossHistory s \<noteq> [] \<longrightarrow> packetLossHistory (fst (step a s)) \<noteq> [])
        \<and> (internetConnected s \<noteq> None \<longrightarrow> internetConnected (fst (step a s)) \<noteq> None)"
  proof (cases a)
    case (StatusChange i st)
    then show ?thesis
      by (simp add: history_step verdict_step slice_last_def)
  next
    case (LateStatusChange c i st)
    then show ?thesis
      by (simp add: history_step verdict_step slice_last_def)
  qed (simp_all add: addPanel_def removePanel_def)
  then show ?case using Cons.IH [of "fst (step a s)"] by simp
qed

text \<open>
  C5, amended. Removing a panel, the designated one included, leaves the connectivity window as
  it is: the samples and the verdict are those of before.
\<close>

theorem removePanel_leaves_window:
  "packetLossHistory (removePanel i s) = packetLossHistory s
   \<and> internetConnected (removePanel i s) = internetConnected s
   \<and> verdict_of (removePanel i s) = verdict_of s"
  by (simp add: removePanel_def verdict_of_def)

subsection \<open>Connectivity notification\<close>

lemma run_muted:
  "run muted_ten_online_one_offline initial_Index =
     \<lparr>panels = [\<lparr>panel_id = ''1'', panel_target = ''192.168.1.1'',
                  panel_title = ''Local Gateway''\<rparr>],
      panelStatuses = [(''1'', Offline)], globalSoundEnabled = False,
      internetConnected = Some True,
      packetLossHistory = [0, 0, 0, 0, 0, 0, 0, 0, 0, 0, 1]\<rparr>"
  by (simp add: muted_ten_online_one_offline_def ten_online_def page_defs)

lemma run_loud:
  "run ten_online_one_offline initial_Index =
     \<lparr>panels = [\<lparr>panel_id = ''1'', panel_target = ''192.168.1.1'',
                  panel_title = ''Local Gateway''\<rparr>],
      panelStatuses = [(''1'', Offline)], globalSoundEnabled = True,
      internetConnected = Some True,
      packetLossHistory = [0, 0, 0, 0, 0, 0, 0, 0, 0, 0, 1]\<rparr>"
  by (simp add: ten_online_one_offline_def ten_online_def page_defs)

text \<open>
  C8, as stated, fails: with the sound switched off after ten online results, the second
  offline result of the gateway panel turns the verdict from Connected to Disconnected and no
  notification is shown.
\<close>

theorem silent_flip_counterexample:
  "verdict_of (run muted_ten_online_one_offline initial_Index) = Connected
   \<and> verdict_of (fst (step gw_offline (run muted_ten_online_one_offline initial_Index)))
        = Disconnected
   \<and> snd (step gw_offline (run muted_ten_online_one_offline initial_Index)) = []"
  by (simp add: run_muted page_step_defs)

text \<open>
  When the handler shows the notification, in terms of what its callback holds; and what the
  notification says, whatever the callback.
\<close>

lemma toast_step:
  "snd (handleStatusChange c i st s) =
     (if designated i c
         \<and> 10 \<le> length (slice_last 20 (packetLossHistory s @ [sample st]))
         \<and> internetConnected c \<noteq> None
         \<and> internetConnected c
             \<noteq> Some (packetLossPercentage (slice_last 20 (packetLossHistory s @ [sample st])) < 10)
         \<and> globalSoundEnabled c
      then [connectivity_toast
              (packetLossPercentage (slice_last 20 (packetLossHistory s @ [sample st])) < 10)
              (packetLossPercentage (slice_last 20 (packetLossHistory s @ [sample st])))]
      else [])"
  by (auto simp: handleStatusChange_def designated_def sample_def Let_def split: option.splits)

lemma toast_current:
  assumes "internetConnected c = internetConnected s"
    and "globalSoundEnabled c = globalSoundEnabled s"
  shows "snd (handleStatusChange c i st s) =
     (if internetConnected s \<noteq> None
         \<and> internetConnected (fst (handleStatusChange c i st s)) \<noteq> internetConnected s
         \<and> globalSoundEnabled s
      then [connectivity_toast (internetConnected (fst (handleStatusChange c i st s)) = Some True)
              (packetLossPercentage (packetLossHistory (fst (handleStatusChange c i st s))))]
      else [])"
  unfolding toast_step history_step verdict_step using assms by auto

lemma toast_content:
  "list_all
     (\<lambda>t. t = connectivity_toast (internetConnected (fst (handleStatusChange c i st s)) = Some True)
                (packetLossPercentage (packetLossHistory (fst (handleStatusChange c i st s)))))
     (snd (handleStatusChange c i st s))"
  unfolding toast_step history_step verdict_step by auto

text \<open>The text of \<^const>\<open>toFixed1\<close> is that of a number of tenths within 0.05 of its argument.\<close>

lemma tenths_nearest:
  assumes "0 \<le> x"
  shows "\<bar>real (nat \<lfloor>x * 10 + 1 / 2\<rfloor>) / 10 - x\<bar> \<le> 1 / 20"
proof -
  define n where "n = \<lfloor>x * 10 + 1 / 2\<rfloor>"
  have nn: "0 \<le> n" using assms by (simp add: n_def)
  have a: "real_of_int n \<le> x * 10 + 1 / 2" unfolding n_def by (rule of_int_floor_le)
  have b: "x * 10 + 1 / 2 < real_of_int n + 1" unfolding n_def by linarith
  have "real_of_int n / 10 - x \<le> 1 / 20" using a by linarith
  moreover have "- (1 / 20) \<le> real_of_int n / 10 - x" using b by linarith
  ultimately have "\<bar>real_of_int n / 10 - x\<bar> \<le> 1 / 20" by linarith
  then show ?thesis using nn by (simp add: n_def)
qed

text \<open>
  C8, amended. When a status event is handled by a callback that holds the current verdict and
  the current global sound switch, as the callback of the latest render does, it shows the
  connectivity notification exactly when a verdict existed before the event, the event changes
  it, and the switch is on. Whatever callback handles the event, a notification shown names the
  verdict after the event and gives the loss percentage of the window after the event with one
  decimal. No other event of the page shows one.
\<close>

theorem connectivity_toast_on_flip:
  "(internetConnected c = internetConnected s \<and> globalSoundEnabled c = globalSoundEnabled s
     \<longrightarrow>
     snd (handleStatusChange c i st s) =
       (if internetConnected s \<noteq> None
           \<and> internetConnected (fst (handleStatusChange c i st s)) \<noteq> internetConnected s
           \<and> globalSoundEnabled s
        then [\<lparr>toast_title =
                  (if internetConnected (fst (handleStatusChange c i st s)) = Some True
                   then ''Internet Connected'' else ''Internet Disconnected''),
                toast_description =
                  ''Packet loss: ''
                    @ toFixed1 (packetLossPercentage
                                  (packetLossHistory (fst (handleStatusChange c i st s))))
                    @ ''%'',
                toast_variant =
                  (if internetConnected (fst (handleStatusChange c i st s)) = Some True
                   then ''default'' else ''destructive'')\<rparr>]
        else []))
   \<and> list_all
        (\<lambda>t. t = \<lparr>toast_title =
                      (if internetConnected (fst (handleStatusChange c i st s)) = Some True
                       then ''Internet Connected'' else ''Internet Disconnected''),
                    toast_description =
                      ''Packet loss: ''
                        @ toFixed1 (packetLossPercentage
                                      (packetLossHistory (fst (handleStatusChange c i st s))))
                        @ ''%'',
                    toast_variant =
                      (if internetConnected (fst (handleStatusChange c i st s)) = Some True
                       then ''default'' else ''destructive'')\<rparr>)
        (snd (handleStatusChange c i st s))
   \<and> snd (step (AddPanel new_id target' title') s) = []
   \<and> snd (step (RemovePanel i) s) = []
   \<and> snd (step ToggleSound s) = []"
proof -
  have current:
    "internetConnected c = internetConnected s \<and> globalSoundEnabled c = globalSoundEnabled s
     \<longrightarrow>
     snd (handleStatusChange c i st s) =
       (if internetConnected s \<noteq> None
           \<and> internetConnected (fst (handleStatusChange c i st s)) \<noteq> internetConnected s
           \<and> globalSoundEnabled s
        then [connectivity_toast
                (internetConnected (fst (handleStatusChange c i st s)) = Some True)
                (packetLossPercentage (packetLossHistory (fst (handleStatusChange c i st s))))]
        else [])"
    using toast_current [of c s i st] by blast
  show ?thesis
    using current toast_content [of c i st s] by (simp add: connectivity_toast_def)
qed

theorem connectivity_toast_on_flip_witness:
  "internetConnected (run ten_online_one_offline initial_Index) = Some True
   \<and> internetConnected
        (fst (handleStatusChange (run ten_online_one_offline initial_Index) ''1'' Offline
                (run ten_online_one_offline initial_Index))) = Some False
   \<and> globalSoundEnabled (run ten_online_one_offline initial_Index)
   \<and> snd (handleStatusChange (run ten_online_one_offline initial_Index) ''1'' Offline
             (run ten_online_one_offline initial_Index)) =
        [\<lparr>toast_title = ''Internet Disconnected'',
          toast_description = ''Packet loss: 16.7%'',
          toast_variant = ''destructive''\<rparr>]"
proof -
  let ?s = "run ten_online_one_offline initial_Index"
  have before: "internetConnected ?s = Some True" and sound: "globalSoundEnabled ?s"
    by (simp_all add: run_loud)
  have hist: "packetLossHistory (fst (handleStatusChange ?s ''1'' Offline ?s))
                = [0, 0, 0, 0, 0, 0, 0, 0, 0, 0, 1, 1]"
    by (simp add: history_step designated_def sample_def find_panel_def slice_last_def run_loud)
  have after: "internetConnected (fst (handleStatusChange ?s ''1'' Offline ?s)) = Some False"
    by (simp add: verdict_step designated_def sample_def find_panel_def slice_last_def
          packetLossPercentage_def run_loud)
  have rendered: "toFixed1 (packetLossPercentage [0, 0, 0, 0, 0, 0, 0, 0, 0, 0, 1, 1]) = ''16.7''"
    by (simp add: toFixed1_def packetLossPercentage_def show_nat.simps digit_char_def)
  note flip = connectivity_toast_on_flip [of ?s ?s "''1''" Offline, unfolded hist rendered]
  show ?thesis
    using flip before after sound by simp
qed

text \<open>
  What the amended C8 leaves open. On the page with two gateway panels the second panel starts
  a probe while the verdict is Connected; two offline results of the first panel turn the
  verdict to Disconnected; the second panel's probe then ends offline and calls the callback
  it started with, which still holds the verdict Connected. The verdict stays Disconnected,
  and the notification is shown once more.
\<close>

lemma connected_page_eq:
  "connected_page =
     \<lparr>panels = [\<lparr>panel_id = ''1'', panel_target = ''192.168.1.1'',
                  panel_title = ''Local Gateway''\<rparr>,
                \<lparr>panel_id = ''1700000000000'', panel_target = ''192.168.1.1'',
                  panel_title = ''Router again''\<rparr>],
      panelStatuses = [(''1'', Online)], globalSoundEnabled = True,
      internetConnected = Some True, packetLossHistory = [0, 0, 0, 0, 0, 0, 0, 0, 0, 0]\<rparr>"
  by (simp add: connected_page_def two_gateway_page_def ten_online_def page_defs)

lemma disconnected_page_eq:
  "disconnected_page =
     \<lparr>panels = [\<lparr>panel_id = ''1'', panel_target = ''192.168.1.1'',
                  panel_title = ''Local Gateway''\<rparr>,
                \<lparr>panel_id = ''1700000000000'', panel_target = ''192.168.1.1'',
                  panel_title = ''Router again''\<rparr>],
      panelStatuses = [(''1'', Offline)], globalSoundEnabled = True,
      internetConnected = Some False,
      packetLossHistory = [0, 0, 0, 0, 0, 0, 0, 0, 0, 0, 1, 1]\<rparr>"
  by (simp add: disconnected_page_def connected_page_eq page_step_defs)

lemma late_callback_toast_without_flip:
  "verdict_of connected_page = Connected
   \<and> verdict_of disconnected_page = Disconnected
   \<and> verdict_of (fst (step (LateStatusChange connected_page ''1700000000000'' Offline)
                         disconnected_page)) = Disconnected
   \<and> snd (step (LateStatusChange connected_page ''1700000000000'' Offline) disconnected_page) =
        [\<lparr>toast_title = ''Internet Disconnected'',
          toast_description = ''Packet loss: 23.1%'',
          toast_variant = ''destructive''\<rparr>]"
  by (auto simp add: connected_page_eq disconnected_page_eq page_step_defs toFixed1_def
        show_nat.simps digit_char_def)

subsection \<open>Which panels feed the window\<close>

lemma gateway_edited_eq:
  "gateway_edited =
     \<lparr>index = initial_Index,
      mounted = [(''1'', (mount ''192.168.1.1'')\<lparr>target := ''example.com''\<rparr>)]\<rparr>"
  by (simp add: gateway_edited_def app_setTarget_def initial_App_def rerun_effect_def mount_def)

text \<open>
  C9, as stated, fails in its last part: after the target of the gateway panel has been edited
  to example.com, the panel probes example.com, and its tick still adds a sample to the
  connectivity window.
\<close>

theorem edited_target_still_feeds_counterexample:
  "map_option target (map_of (mounted gateway_edited) ''1'') = Some ''example.com''
   \<and> fst (performPing answering_env ''example.com'') = [Fetch ''https://example.com'' 5000 120]
   \<and> packetLossHistory (index gateway_edited) = []
   \<and> packetLossHistory (index (fst (app_tick ''1'' answering_env gateway_edited))) = [0]"
  by (simp add: gateway_edited_eq app_tick_def prober_defs answering_env_def page_defs
        mount_def tick_def newStatus_def)

lemma app_setTarget_index: "index (app_setTarget i t app) = index app"
  by (simp add: app_setTarget_def split: option.splits)

lemma app_tick_history:
  "map_of (mounted app) i = Some p \<Longrightarrow> isRunning p \<Longrightarrow> target p \<noteq> [] \<Longrightarrow>
   packetLossHistory (index (fst (app_tick i env app))) =
     (if designated i (index app)
      then slice_last 20 (packetLossHistory (index app)
                            @ [sample (newStatus (snd (performPing env (target p))))])
      else packetLossHistory (index app))"
  using history_step [of "index app" i "newStatus (snd (performPing env (target p)))" "index app"]
  by (simp add: app_tick_def tick_def Let_def case_prod_beta)

text \<open>
  C9, amended. A status event of id \<open>i\<close> adds its sample to the window exactly when the entry
  for \<open>i\<close> in the panel list of the callback that handles it (the page's current list, for the
  callback of the latest render) has the target 192.168.1.1, so every panel added with that
  address feeds the one window. Editing the target inside a panel does not change the page's
  entry: a tick of a running panel feeds the window or not by the page's entry, whatever the
  panel's own target has become.
\<close>

theorem designation_by_registry_address:
  "packetLossHistory (fst (handleStatusChange c i st s)) =
     (if designated i c then slice_last 20 (packetLossHistory s @ [sample st])
      else packetLossHistory s)
   \<and> index (app_setTarget i t app) = index app
   \<and> (map_of (mounted app) i = Some p \<and> isRunning p \<and> target p \<noteq> [] \<longrightarrow>
        packetLossHistory (index (fst (app_tick i env app))) =
          (if designated i (index app)
           then slice_last 20 (packetLossHistory (index app)
                                 @ [sample (newStatus (snd (performPing env (target p))))])
           else packetLossHistory (index app)))"
  using history_step [of c i st s] app_setTarget_index [of i t app]
        app_tick_history [of app i p env]
  by blast

lemma two_gateways_eq:
  "two_gateways =
     \<lparr>index = initial_Index
        \<lparr>panels :=
           [\<lparr>panel_id = ''1'', panel_target = ''192.168.1.1'', panel_title = ''Local Gateway''\<rparr>,
            \<lparr>panel_id = ''1700000000000'', panel_target = ''192.168.1.1'',
             panel_title = ''Router again''\<rparr>]\<rparr>,
      mounted = [(''1'', mount ''192.168.1.1''), (''1700000000000'', mount ''192.168.1.1'')]\<rparr>"
  by (simp add: two_gateways_def app_addPanel_def initial_App_def addPanel_def initial_Index_def
        refresh_callbacks_def rerun_effect_def mount_def)

theorem designation_by_registry_address_witness:
  "designated ''1'' (index two_gateways)
   \<and> designated ''1700000000000'' (index two_gateways)
   \<and> packetLossHistory
        (fst (step (StatusChange ''1700000000000'' Offline)
               (fst (step (StatusChange ''1'' Online) (index two_gateways))))) = [0, 1]
   \<and> map_of (mounted two_gateways) ''1700000000000'' = Some (mount ''192.168.1.1'')
   \<and> isRunning (mount ''192.168.1.1'') \<and> target (mount ''192.168.1.1'') \<noteq> []
   \<and> packetLossHistory (index (fst (app_tick ''1700000000000'' lossy_env two_gateways))) = [1]"
proof -
  let ?s0 = "index two_gateways"
  let ?s1 = "fst (handleStatusChange ?s0 ''1'' Online ?s0)"
  have d1: "designated ''1'' ?s0" and d2: "designated ''1700000000000'' ?s0"
    by (simp_all add: two_gateways_eq designated_def find_panel_def initial_Index_def)
  have h0: "packetLossHistory ?s0 = []"
    by (simp add: two_gateways_eq initial_Index_def)
  have h1: "packetLossHistory ?s1 = [0]"
    using designation_by_registry_address [of ?s0 "''1''" Online ?s0] d1
    by (simp add: h0 sample_def slice_last_def)
  have d2': "designated ''1700000000000'' ?s1"
    using d2 by (simp add: designated_def handleStatusChange_def Let_def split: option.splits)
  have h2: "packetLossHistory (fst (handleStatusChange ?s1 ''1700000000000'' Offline ?s1)) = [0, 1]"
    using designation_by_registry_address [of ?s1 "''1700000000000''" Offline ?s1] d2'
    by (simp add: h1 sample_def slice_last_def)
  then have h2':
    "packetLossHistory
        (fst (step (StatusChange ''1700000000000'' Offline)
               (fst (step (StatusChange ''1'' Online) (index two_gateways))))) = [0, 1]"
    by simp
  have m: "map_of (mounted two_gateways) ''1700000000000'' = Some (mount ''192.168.1.1'')"
    by (simp add: two_gateways_eq)
  have r: "isRunning (mount ''192.168.1.1'')" and t: "target (mount ''192.168.1.1'') \<noteq> []"
    by (simp_all add: mount_def)
  have st: "newStatus (snd (performPing lossy_env (target (mount ''192.168.1.1'')))) = Error"
    by (simp add: mount_def prober_defs lossy_env_def newStatus_def)
  have h3: "packetLossHistory (index (fst (app_tick ''1700000000000'' lossy_env two_gateways)))
              = [1]"
    using designation_by_registry_address
            [of _ "''1700000000000''" _ _ _ two_gateways "mount ''192.168.1.1''" lossy_env]
          m r t d2
    by (simp add: h0 st sample_def slice_last_def)
  show ?thesis using d1 d2 h2' m r t h3 by blast
qed

subsection \<open>The page's callback and the statistics of a panel\<close>

text \<open>
  The gateway panel of the initial page and eleven successful probes of 20 ms each. The tenth
  result sets the verdict, so the page hands every panel a new callback and the panel's
  interval is installed anew, closing over the ten results of that render. The eleventh tick
  sums those ten and divides by the eleven received: 18.
\<close>

lemma steady_result: "snd (performPing steady_env ''192.168.1.1'') = ok 20"
  by (simp add: prober_defs steady_env_def ok_def)

lemma avgTime_after_verdict:
  "map_option stats (map_of (mounted (app_ticks ''1'' eleven_steady initial_App)) ''1'')
     = Some \<lparr>sent = 11, received = 11, lost = 0, avgTime = 18\<rparr>"
  by (simp add: eleven_steady_def initial_App_def app_tick_def steady_result
        page_defs panel_defs refresh_callbacks_def)

subsection \<open>Connection Lost notification\<close>

lemma no_entry_step:
  assumes "map_of (panelStatuses s) i = None"
    and "\<forall>st'. a \<noteq> StatusChange i st'"
    and "\<forall>c st'. a \<noteq> LateStatusChange c i st'"
  shows "map_of (panelStatuses (fst (step_p0 a s))) i = None"
proof (cases a)
  case (AddPanel new_id target' title')
  then show ?thesis using assms by (simp add: addPanel_def)
next
  case (RemovePanel j)
  then show ?thesis using assms by (simp add: removePanel_def delete_conv')
next
  case (StatusChange j st)
  then have "j \<noteq> i" using assms(2) by auto
  then show ?thesis using assms(1) StatusChange
    by (simp add: handleStatusChange_p0_def Let_def update_conv')
next
  case (LateStatusChange c j st)
  then have "j \<noteq> i" using assms(3) by auto
  then show ?thesis using assms(1) LateStatusChange
    by (simp add: handleStatusChange_p0_def Let_def update_conv')
next
  case ToggleSound
  then show ?thesis using assms by simp
qed

lemma no_entry_run:
  "map_of (panelStatuses s) i = None \<Longrightarrow> \<forall>st'. StatusChange i st' \<notin> set as \<Longrightarrow>
   \<forall>c st'. LateStatusChange c i st' \<notin> set as \<Longrightarrow>
   map_of (panelStatuses (run_p0 as s)) i = None"
proof (induction as arbitrary: s)
  case Nil
  then show ?case by simp
next
  case (Cons a as)
  have "map_of (panelStatuses (fst (step_p0 a s))) i = None"
    using Cons.prems by (intro no_entry_step) auto
  then show ?case using Cons by simp
qed

lemma toast_p0_cases:
  "snd (handleStatusChange_p0 c i st s) \<noteq> [] \<Longrightarrow>
     (\<exists>old. map_of (panelStatuses s) i = Some old \<and> old \<noteq> st) \<and> (st = Offline \<or> st = Error)"
  by (auto simp: handleStatusChange_p0_def Let_def split: if_splits option.splits)

lemma toast_p0_first:
  "map_of (panelStatuses s) i = None \<Longrightarrow> snd (handleStatusChange_p0 c i st s) = []"
  by (simp add: handleStatusChange_p0_def Let_def)

lemma toast_p0_online: "snd (handleStatusChange_p0 c i Online s) = []"
  by (simp add: handleStatusChange_p0_def Let_def split: option.splits)

lemma toast_p0_title:
  "list_all (\<lambda>t. toast_title t = ''Connection Lost'') (snd (handleStatusChange_p0 c i st s))"
  by (simp add: handleStatusChange_p0_def Let_def split: option.splits)

text \<open>
  C10. The only notification a status event of the page of part_000 shows is Connection Lost,
  whatever callback handles the event. If the event shows it, a status was recorded for the id
  before, that status differs from the new one, and the new one is offline or error. An event
  for an id with no recorded status shows nothing; so does the first status event of an id
  after any events of the page that are not status events of that id; so does every event
  whose new status is online.
\<close>

theorem connection_lost_only_after_change:
  "list_all (\<lambda>t. toast_title t = ''Connection Lost'') (snd (handleStatusChange_p0 c i st s))
   \<and> (snd (handleStatusChange_p0 c i st s) \<noteq> [] \<longrightarrow>
        (\<exists>old. map_of (panelStatuses s) i = Some old \<and> old \<noteq> st)
        \<and> (st = Offline \<or> st = Error))
   \<and> (map_of (panelStatuses s) i = None \<longrightarrow> snd (handleStatusChange_p0 c i st s) = [])
   \<and> ((\<forall>st'. StatusChange i st' \<notin> set as) \<and> (\<forall>c' st'. LateStatusChange c' i st' \<notin> set as)
        \<longrightarrow> snd (handleStatusChange_p0 c i st (run_p0 as initial_Index_p0)) = [])
   \<and> snd (handleStatusChange_p0 c i Online s) = []"
proof -
  have "(\<forall>st'. StatusChange i st' \<notin> set as) \<and> (\<forall>c' st'. LateStatusChange c' i st' \<notin> set as)
        \<longrightarrow> snd (handleStatusChange_p0 c i st (run_p0 as initial_Index_p0)) = []"
  proof
    assume "(\<forall>st'. StatusChange i st' \<notin> set as)
            \<and> (\<forall>c' st'. LateStatusChange c' i st' \<notin> set as)"
    then have "map_of (panelStatuses (run_p0 as initial_Index_p0)) i = None"
      by (intro no_entry_run) (simp_all add: initial_Index_p0_def)
    then show "snd (handleStatusChange_p0 c i st (run_p0 as initial_Index_p0)) = []"
      by (rule toast_p0_first)
  qed
  then show ?thesis
    using toast_p0_cases [of c i st s] toast_p0_first [of s i c st] toast_p0_online [of c i s]
          toast_p0_title [of c i st s]
    by blast
qed

lemma gateway_seen_online_eq:
  "gateway_seen_online =
     \<lparr>panels = [\<lparr>panel_id = ''1'', panel_target = ''192.168.1.1'', panel_title = ''Local Gateway''\<rparr>,
                \<lparr>panel_id = ''2'', panel_target = ''8.8.8.8'', panel_title = ''Google DNS''\<rparr>,
                \<lparr>panel_id = ''3'', panel_target = ''github.com'', panel_title = ''GitHub''\<rparr>],
      panelStatuses = [(''1'', Online)], globalSoundEnabled = True\<rparr>"
  by (simp add: gateway_seen_online_def handleStatusChange_p0_def initial_Index_p0_def
        addPanel_def Let_def)

theorem connection_lost_only_after_change_witness:
  "snd (step_p0 (StatusChange ''1'' Offline) gateway_seen_online) =
     [\<lparr>toast_title = ''Connection Lost'',
       toast_description = ''Local Gateway (192.168.1.1) is offline'',
       toast_variant = ''destructive''\<rparr>]
   \<and> (\<exists>old. map_of (panelStatuses gateway_seen_online) ''1'' = Some old \<and> old \<noteq> Offline)
   \<and> map_of (panelStatuses gateway_seen_online) ''3'' = None
   \<and> snd (step_p0 (StatusChange ''3'' Error) gateway_seen_online) = []
   \<and> (\<forall>st'. StatusChange ''2'' st'
             \<notin> set [AddPanel ''3'' ''github.com'' ''GitHub'', gw_online :: Index_p0 action])
   \<and> (\<forall>c' st'. LateStatusChange c' ''2'' st'
             \<notin> set [AddPanel ''3'' ''github.com'' ''GitHub'', gw_online :: Index_p0 action])
   \<and> snd (step_p0 (StatusChange ''2'' Offline) gateway_seen_online) = []"
proof -
  let ?g = gateway_seen_online
  let ?as = "[AddPanel ''3'' ''github.com'' ''GitHub'', gw_online :: Index_p0 action]"
  have shown: "snd (handleStatusChange_p0 ?g ''1'' Offline ?g) =
     [\<lparr>toast_title = ''Connection Lost'',
       toast_description = ''Local Gateway (192.168.1.1) is offline'',
       toast_variant = ''destructive''\<rparr>]"
    by (simp add: gateway_seen_online_eq handleStatusChange_p0_def find_panel_def Let_def)
  then have "snd (handleStatusChange_p0 ?g ''1'' Offline ?g) \<noteq> []"
    by simp
  then have old: "\<exists>old. map_of (panelStatuses ?g) ''1'' = Some old \<and> old \<noteq> Offline"
    using connection_lost_only_after_change [of ?g "''1''" Offline ?g] by blast
  have none: "map_of (panelStatuses ?g) ''3'' = None"
    by (simp add: gateway_seen_online_eq)
  then have first: "snd (handleStatusChange_p0 ?g ''3'' Error ?g) = []"
    using connection_lost_only_after_change [of ?g "''3''" Error ?g] by blast
  have fresh: "\<forall>st'. StatusChange ''2'' st' \<notin> set ?as"
    and fresh': "\<forall>c' st'. LateStatusChange c' ''2'' st' \<notin> set ?as"
    by simp_all
  then have "snd (handleStatusChange_p0 ?g ''2'' Offline (run_p0 ?as initial_Index_p0)) = []"
    using connection_lost_only_after_change [of ?g "''2''" Offline _ ?as] by blast
  then have second: "snd (handleStatusChange_p0 ?g ''2'' Offline ?g) = []"
    by (simp only: gateway_seen_online_def)
  show ?thesis using shown old none first fresh fresh' second by simp
qed

end
